theory Spec2Isabelle
  imports Main
begin

section \<open>Container image cleanup: the retention pipeline of cleanup.js\<close>

text \<open>
  The program lists the container packages of a repository, lists every version of each
  package, decides for each version whether it is deleted, and deletes (or, in dry-run
  mode, only reports) the versions marked. This theory embeds the current revision of the
  script: \<open>sanitizeTag\<close>, the classes \<open>DockerRepository\<close> and \<open>DockerRegistry\<close>, and the
  part of \<open>main\<close> from the package listing to the summary line.

  What the script does beyond computing values is explicit here:
  \<^item> a Node stream, and an \<open>async\<close> call, is a list of events: the effects it performs (a
    request sent, a line logged), the items it delivers, and possibly an exception or a
    recursion that never ends, either of which ends it;
  \<^item> a JavaScript \<open>Date\<close> is its time value, \<open>None\<close> for \<open>NaN\<close>; the calendar functions are
    those of the language standard;
  \<^item> the registry and the packages API are functions from a request to its answer, an
    exception or a document.
\<close>

subsection \<open>sanitizeTag\<close>

text \<open>
  \<^verbatim>\<open>tag.replace(/[^a-zA-Z0-9._-]+/g, '-')\<close>: every maximal run of characters outside the
  class becomes one dash. The regular expression works on the code units of the string; a
  string is modelled as a list of characters, and every character outside the ASCII class
  is outside the class.
\<close>

definition allowed :: "char \<Rightarrow> bool" where
  "allowed c = (let n = (of_char c :: nat) in
     (97 \<le> n \<and> n \<le> 122) \<or> (65 \<le> n \<and> n \<le> 90) \<or> (48 \<le> n \<and> n \<le> 57)
     \<or> c = CHR ''.'' \<or> c = CHR ''_'' \<or> c = CHR ''-'')"

function sanitizeTag :: "string \<Rightarrow> string" where
  "sanitizeTag [] = []"
| "sanitizeTag (c # cs) =
     (if allowed c then c # sanitizeTag cs
      else CHR ''-'' # sanitizeTag (dropWhile (\<lambda>d. \<not> allowed d) cs))"
  by pat_completeness auto
termination
  by (relation "measure length") (auto simp: length_dropWhile_le less_Suc_eq_le)

text \<open>
  Two strings differ only in disallowed characters when what is left of them once the
  disallowed characters are taken out is the same string.
\<close>

definition differ_only_disallowed :: "string \<Rightarrow> string \<Rightarrow> bool" where
  "differ_only_disallowed x y = (filter allowed x = filter allowed y)"

text \<open>
  Two strings have the same runs when they are made of the same allowed characters in the
  same order and a run of disallowed characters stands in one wherever a run of disallowed
  characters stands in the other; the two runs may be of any characters outside the class
  and of different lengths.
\<close>

function same_runs :: "string \<Rightarrow> string \<Rightarrow> bool" where
  "same_runs [] [] = True"
| "same_runs [] (b # ys) = False"
| "same_runs (a # xs) [] = False"
| "same_runs (a # xs) (b # ys) =
     (if allowed a then b = a \<and> same_runs xs ys
      else \<not> allowed b
        \<and> same_runs (dropWhile (\<lambda>c. \<not> allowed c) xs) (dropWhile (\<lambda>c. \<not> allowed c) ys))"
  by pat_completeness auto
termination
  by (relation "measure (\<lambda>(x, y). length x)") (auto simp: length_dropWhile_le less_Suc_eq_le)

subsection \<open>The reference names\<close>

text \<open>
  \<^verbatim>\<open>merge_stream(branches, tags, prs).map(sanitizeTag).toArray()\<close>, where a pull request
  contributes \<^verbatim>\<open>`pr-${pr.number}`\<close>. The order in which the three listings are merged is
  not fixed; the array is only ever searched.
\<close>

fun show_nat :: "nat \<Rightarrow> string" where
  "show_nat n = (if n < 10 then [char_of (48 + n)]
                 else show_nat (n div 10) @ [char_of (48 + n mod 10)])"

definition collectRefs :: "string list \<Rightarrow> string list \<Rightarrow> nat list \<Rightarrow> string list" where
  "collectRefs branches tags prs =
     map sanitizeTag (branches @ tags @ map (\<lambda>n. ''pr-'' @ show_nat n) prs)"

subsection \<open>Dates\<close>

text \<open>
  The time value of a \<open>Date\<close> is a number of milliseconds since 1970-01-01T00:00:00Z. The
  functions below are those of the ECMAScript standard (section Date Objects), on
  integers: \<open>div\<close> is the floor of the quotient and \<open>mod\<close> has the sign of the divisor, as
  the standard's \<open>floor\<close> and \<open>modulo\<close>.

  \<open>YearFromTime t\<close> is, in the standard, the largest year \<open>y\<close> with
  \<open>TimeFromYear y \<le> t\<close>; here it is computed from an estimate that is off by at most one,
  and lemma \<open>YearFromTime_spec\<close> proves that it is that year. \<open>MakeDay\<close> is, in the standard,
  the day number of a time value found with the given year and month and date 1, plus
  \<open>date - 1\<close>; here that day is computed, and lemma \<open>MakeDay_find\<close> proves that it is the one
  the standard asks for.
\<close>

definition msPerDay :: int where
  "msPerDay = 86400000"

definition Day :: "int \<Rightarrow> int" where
  "Day t = t div msPerDay"

definition TimeWithinDay :: "int \<Rightarrow> int" where
  "TimeWithinDay t = t mod msPerDay"

definition DaysInYear :: "int \<Rightarrow> int" where
  "DaysInYear y = (if y mod 4 \<noteq> 0 then 365 else if y mod 100 \<noteq> 0 then 366
                   else if y mod 400 \<noteq> 0 then 365 else 366)"

definition DayFromYear :: "int \<Rightarrow> int" where
  "DayFromYear y =
     365 * (y - 1970) + (y - 1969) div 4 - (y - 1901) div 100 + (y - 1601) div 400"

definition YearFromTime :: "int \<Rightarrow> int" where
  "YearFromTime t = (let d = Day t; y = 1970 + (400 * d) div 146097 in
     if DayFromYear (y + 1) \<le> d then y + 1 else if DayFromYear y \<le> d then y else y - 1)"

definition InLeapYear :: "int \<Rightarrow> int" where
  "InLeapYear t = (if DaysInYear (YearFromTime t) = 365 then 0 else 1)"

definition DayWithinYear :: "int \<Rightarrow> int" where
  "DayWithinYear t = Day t - DayFromYear (YearFromTime t)"

definition MonthFromTime :: "int \<Rightarrow> int" where
  "MonthFromTime t = (let d = DayWithinYear t; l = InLeapYear t in
     if d < 31 then 0 else if d < 59 + l then 1 else if d < 90 + l then 2
     else if d < 120 + l then 3 else if d < 151 + l then 4 else if d < 181 + l then 5
     else if d < 212 + l then 6 else if d < 243 + l then 7 else if d < 273 + l then 8
     else if d < 304 + l then 9 else if d < 334 + l then 10 else 11)"

definition DateFromTime :: "int \<Rightarrow> int" where
  "DateFromTime t = (let d = DayWithinYear t; l = InLeapYear t; m = MonthFromTime t in
     if m = 0 then d + 1 else if m = 1 then d - 30 else if m = 2 then d - 58 - l
     else if m = 3 then d - 89 - l else if m = 4 then d - 119 - l
     else if m = 5 then d - 150 - l else if m = 6 then d - 180 - l
     else if m = 7 then d - 211 - l else if m = 8 then d - 242 - l
     else if m = 9 then d - 272 - l else if m = 10 then d - 303 - l else d - 333 - l)"

definition DaysBeforeMonth :: "int \<Rightarrow> int \<Rightarrow> int" where
  "DaysBeforeMonth mn l = (if mn = 0 then 0 else if mn = 1 then 31
     else if mn = 2 then 59 + l else if mn = 3 then 90 + l else if mn = 4 then 120 + l
     else if mn = 5 then 151 + l else if mn = 6 then 181 + l else if mn = 7 then 212 + l
     else if mn = 8 then 243 + l else if mn = 9 then 273 + l else if mn = 10 then 304 + l
     else 334 + l)"

definition MakeDay :: "int \<Rightarrow> int \<Rightarrow> int \<Rightarrow> int" where
  "MakeDay year month date = (let ym = year + month div 12; mn = month mod 12;
       l = (if DaysInYear ym = 365 then 0 else 1)
     in DayFromYear ym + DaysBeforeMonth mn l + date - 1)"

definition MakeDate :: "int \<Rightarrow> int \<Rightarrow> int" where
  "MakeDate day time = day * msPerDay + time"

definition TimeClip :: "int \<Rightarrow> int option" where
  "TimeClip time = (if \<bar>time\<bar> > 8640000000000000 then None else Some time)"

text \<open>
  A \<open>Date\<close> object is its time value, \<open>None\<close> when that is \<open>NaN\<close> (an invalid date); a number
  that may be \<open>NaN\<close> is an \<open>int option\<close> likewise.

  The methods work in local time. The local zone is the standard's \<open>LocalTZA(t, isUTC)\<close>,
  the offset of local time from UTC in milliseconds: with \<open>isUTC\<close> true, \<open>t\<close> is a time
  value and the result is the offset in force at that moment; with \<open>isUTC\<close> false, \<open>t\<close> is
  a local time and the result is the offset under which that local time is read (where a
  change of offset skips or repeats local times, the offset before the change). The offset
  need not be constant: a zone with daylight saving time has two.
\<close>

type_synonym date = "int option"

type_synonym zone = "int \<Rightarrow> bool \<Rightarrow> int"

definition LocalTime :: "zone \<Rightarrow> int \<Rightarrow> int" where
  "LocalTime LocalTZA t = t + LocalTZA t True"

definition UTC :: "zone \<Rightarrow> int \<Rightarrow> int" where
  "UTC LocalTZA t = t - LocalTZA t False"

definition newDate :: "int \<Rightarrow> date" where
  \<comment> \<open>\<^verbatim>\<open>new Date()\<close> when the system clock reads \<open>clock\<close>\<close>
  "newDate clock = TimeClip clock"

definition getDate :: "zone \<Rightarrow> date \<Rightarrow> int option" where
  "getDate z d = (case d of None \<Rightarrow> None | Some t \<Rightarrow> Some (DateFromTime (LocalTime z t)))"

definition getFullYear :: "zone \<Rightarrow> date \<Rightarrow> int option" where
  "getFullYear z d = (case d of None \<Rightarrow> None | Some t \<Rightarrow> Some (YearFromTime (LocalTime z t)))"

definition setDate :: "zone \<Rightarrow> date \<Rightarrow> int option \<Rightarrow> date" where
  "setDate z d date = (case d of None \<Rightarrow> None | Some tv \<Rightarrow>
     (case date of None \<Rightarrow> None | Some dt \<Rightarrow>
        (let t = LocalTime z tv;
             newDate = MakeDate (MakeDay (YearFromTime t) (MonthFromTime t) dt) (TimeWithinDay t)
         in TimeClip (UTC z newDate))))"

definition setFullYear :: "zone \<Rightarrow> date \<Rightarrow> int option \<Rightarrow> date" where
  "setFullYear z d year = (case year of None \<Rightarrow> None | Some y \<Rightarrow>
     (let t = (case d of None \<Rightarrow> 0 | Some tv \<Rightarrow> LocalTime z tv);
          newDate = MakeDate (MakeDay y (MonthFromTime t) (DateFromTime t)) (TimeWithinDay t)
      in TimeClip (UTC z newDate)))"

text \<open>\<open>a > b\<close> and \<open>a < b\<close> on dates compare the time values; with \<open>NaN\<close> both are false.\<close>

definition date_gt :: "date \<Rightarrow> date \<Rightarrow> bool" where
  "date_gt a b = (case a of None \<Rightarrow> False
     | Some x \<Rightarrow> (case b of None \<Rightarrow> False | Some y \<Rightarrow> x > y))"

definition date_lt :: "date \<Rightarrow> date \<Rightarrow> bool" where
  "date_lt a b = (case a of None \<Rightarrow> False
     | Some x \<Rightarrow> (case b of None \<Rightarrow> False | Some y \<Rightarrow> x < y))"

text \<open>
  The two cutoffs of \<open>main\<close>:
  \<^verbatim>\<open>
  const minAge = new Date();
  minAge.setDate(minAge.getDate() - 1);
  const maxAge = new Date();
  maxAge.setFullYear(minAge.getFullYear() - 1);
  \<close>
  The clock is read twice; \<open>clock1\<close> and \<open>clock2\<close> are the two readings. The year given to
  \<open>setFullYear\<close> is read from \<open>minAge\<close>, after it was moved back a day.
\<close>

definition minAge :: "zone \<Rightarrow> int \<Rightarrow> date" where
  "minAge z clock1 = (let d = newDate clock1 in
     setDate z d (map_option (\<lambda>n. n - 1) (getDate z d)))"

definition maxAge :: "zone \<Rightarrow> int \<Rightarrow> int \<Rightarrow> date" where
  "maxAge z clock1 clock2 = (let d = newDate clock2 in
     setFullYear z d (map_option (\<lambda>y. y - 1) (getFullYear z (minAge z clock1))))"

text \<open>
  For comparison, the date one year before a clock reading: the same month, day and time
  of day in the year before the reading's own year.
\<close>

definition oneYearBefore :: "zone \<Rightarrow> int \<Rightarrow> date" where
  "oneYearBefore z clock = (let d = newDate clock in
     setFullYear z d (map_option (\<lambda>y. y - 1) (getFullYear z d)))"

text \<open>A clock reading after 1970 and inside the range of \<open>Date\<close>.\<close>

definition clock_ok :: "int \<Rightarrow> bool" where
  "clock_ok clock = (0 \<le> clock \<and> clock \<le> 8640000000000000)"

text \<open>
  \<open>offset_shift z clock\<close> is how far the offset in force at \<open>clock\<close> is from the offset under
  which the same local time on the previous calendar day is read: \<open>0\<close> when no change of
  offset lies between the two, one hour (\<open>3600000\<close>) the day after clocks went forward, minus
  one hour the day after they went back.
\<close>

definition offset_shift :: "zone \<Rightarrow> int \<Rightarrow> int" where
  "offset_shift z clock = z clock True - z (LocalTime z clock - msPerDay) False"


definition utc :: zone where
  "utc = (\<lambda>t isUTC. 0)"

text \<open>
  The zone America/New\_York around 2025: five hours behind UTC, four from
  2025-03-09T07:00:00Z (local 02:00, read as 03:00) to 2025-11-02T06:00:00Z (local 02:00,
  read as 01:00).
\<close>

definition new_york :: zone where
  "new_york = (\<lambda>t isUTC.
     if isUTC then (if 1741503600000 \<le> t \<and> t < 1762063200000 then - 14400000 else - 18000000)
     else (if 1741489200000 \<le> t \<and> t < 1762048800000 then - 14400000 else - 18000000))"

subsection \<open>Exceptions, effects and streams\<close>

text \<open>
  The exceptions the modelled code can raise: \<open>HttpError\<close> is the \<open>Error\<close> thrown by
  \<open>DockerRegistry.fetch\<close> on a response that is not ok (and stands for a request that
  fails on the network), \<open>SyntaxError\<close> a body that is not JSON, \<open>TypeError\<close> a property read
  from \<open>undefined\<close> or \<open>null\<close> (it names the property), \<open>UnknownMediaType\<close> the \<open>Error\<close> thrown
  at the end of \<open>fetchManifests\<close>, \<open>RequestError\<close> a failed request of the packages API.
\<close>

datatype exn =
    HttpError string
  | SyntaxError
  | TypeError string
  | UnknownMediaType "string option"
  | RequestError string

datatype level = Debug | Info | Warn | Error

text \<open>
  The requests sent: a manifest and a blob of a registry repository (its base URL, then
  the reference or digest), the version listing of a package, the deletion of a version
  (both by URL).
\<close>

datatype request =
    GetManifest string string
  | GetBlob string string
  | ListVersions string
  | DeleteVersion string

text \<open>The lines logged through \<open>octokit.log\<close>, by their template and the values filled in.\<close>

datatype message =
    Processing string
  | TooNew string
  | TooOld string
  | NoVersionLabel string
  | VersionOf string string
  | ErrorWhileProcessing string exn
  | Deleting string string
  | DeleteLine string
  | WillDelete nat
  | Deleted nat

datatype effect = Request request | Log level message

text \<open>
  A stream, and the run of an \<open>async\<close> function, is the list of its events in the order in
  which a consumer meets them: an effect performed, an item delivered (for a function,
  the one value it returns), an exception, or \<open>Diverge\<close> where a recursion does not come
  back. Nothing is met after \<open>Fail\<close> or \<open>Diverge\<close>. The order is the one of a run with
  one job and no read-ahead; the script runs several jobs, and the theorems below do not
  depend on the order of the effects of different items.
\<close>

datatype 'a event = Eff effect | Item 'a | Fail exn | Diverge

fun seq :: "'a event list \<Rightarrow> 'a event list \<Rightarrow> 'a event list" where
  "seq [] ys = ys"
| "seq (Fail e # xs) ys = [Fail e]"
| "seq (Diverge # xs) ys = [Diverge]"
| "seq (x # xs) ys = x # seq xs ys"

fun bind :: "'a event list \<Rightarrow> ('a \<Rightarrow> 'b event list) \<Rightarrow> 'b event list" where
  "bind [] f = []"
| "bind (Item x # es) f = seq (f x) (bind es f)"
| "bind (Eff e # es) f = Eff e # bind es f"
| "bind (Fail e # es) f = [Fail e]"
| "bind (Diverge # es) f = [Diverge]"

text \<open>
  The stream operators of Node used by the script. \<open>map\<close> and \<open>flatMap\<close> run the callback
  on every item and deliver what it returns (for \<open>flatMap\<close>, the items of the stream it
  returns); \<open>filter\<close> delivers the item when the callback returns a truthy value; \<open>every\<close>
  stops at the first item for which the callback returns a falsy value; \<open>reduce\<close> is used
  with \<^verbatim>\<open>previous => previous + 1\<close>.
\<close>

definition map_stream :: "('a \<Rightarrow> 'b event list) \<Rightarrow> 'a event list \<Rightarrow> 'b event list" where
  "map_stream fn s = bind s fn"

definition flatMap_stream :: "('a \<Rightarrow> 'b event list) \<Rightarrow> 'a event list \<Rightarrow> 'b event list" where
  "flatMap_stream fn s = bind s fn"

definition filter_stream :: "('a \<Rightarrow> bool event list) \<Rightarrow> 'a event list \<Rightarrow> 'a event list" where
  "filter_stream fn s = bind s (\<lambda>x. bind (fn x) (\<lambda>b. if b then [Item x] else []))"

fun every :: "('a \<Rightarrow> bool event list) \<Rightarrow> 'a event list \<Rightarrow> bool event list" where
  "every fn [] = [Item True]"
| "every fn (Item x # es) = bind (fn x) (\<lambda>b. if b then every fn es else [Item False])"
| "every fn (Eff e # es) = Eff e # every fn es"
| "every fn (Fail e # es) = [Fail e]"
| "every fn (Diverge # es) = [Diverge]"

fun reduce_count :: "nat \<Rightarrow> 'a event list \<Rightarrow> nat event list" where
  "reduce_count previous [] = [Item previous]"
| "reduce_count previous (Item x # es) = reduce_count (previous + 1) es"
| "reduce_count previous (Eff e # es) = Eff e # reduce_count previous es"
| "reduce_count previous (Fail e # es) = [Fail e]"
| "reduce_count previous (Diverge # es) = [Diverge]"

text \<open>\<^verbatim>\<open>try { ... } catch (ex) { ... }\<close>: an exception of the body runs the handler.\<close>

fun try_catch :: "'a event list \<Rightarrow> (exn \<Rightarrow> 'a event list) \<Rightarrow> 'a event list" where
  "try_catch [] h = []"
| "try_catch (Fail e # es) h = h e"
| "try_catch (Diverge # es) h = [Diverge]"
| "try_catch (x # es) h = x # try_catch es h"

text \<open>
  What an observer sees of a stream: the items delivered and the effects performed before
  it ends, and how it ends.
\<close>

fun delivered :: "'a event list \<Rightarrow> 'a list" where
  "delivered [] = []"
| "delivered (Item x # es) = x # delivered es"
| "delivered (Eff e # es) = delivered es"
| "delivered (Fail e # es) = []"
| "delivered (Diverge # es) = []"

fun effects :: "'a event list \<Rightarrow> effect list" where
  "effects [] = []"
| "effects (Item x # es) = effects es"
| "effects (Eff e # es) = e # effects es"
| "effects (Fail e # es) = []"
| "effects (Diverge # es) = []"

datatype end_state = Completed | Raised exn | Diverged

fun ending :: "'a event list \<Rightarrow> end_state" where
  "ending [] = Completed"
| "ending (Fail e # es) = Raised e"
| "ending (Diverge # es) = Diverged"
| "ending (x # es) = ending es"

fun requests :: "effect list \<Rightarrow> request list" where
  "requests [] = []"
| "requests (Request r # fs) = r # requests fs"
| "requests (Log l m # fs) = requests fs"

fun logged :: "effect list \<Rightarrow> (level \<times> message) list" where
  "logged [] = []"
| "logged (Request r # fs) = logged fs"
| "logged (Log l m # fs) = (l, m) # logged fs"


fun is_request :: "effect \<Rightarrow> bool" where
  "is_request (Request r) = True"
| "is_request (Log l m) = False"





subsection \<open>The registry: DockerRepository and DockerRegistry\<close>

text \<open>
  The documents read from the registry, with the fields the script reads. A field that
  may be absent is an option. Of a manifest: \<open>mediaType\<close>; \<open>config.digest\<close> (\<open>None\<close> when the
  manifest has no \<open>config\<close>); \<open>manifests\<close>, the digests of the entries of an index (\<open>None\<close>
  when the document has no such array). Of an image configuration: \<open>config\<close>, and in it
  \<open>Labels\<close>, a dictionary from label names to values.

  \<open>DockerRegistry.fetchJson\<close> either throws or returns the document: the registry is a
  function from the repository's base URL and the reference to one or the other.
\<close>

record manifest_doc =
  mediaType :: "string option"
  config_digest :: "string option"
  manifests :: "string list option"

record manifest =
  reference :: string
  doc :: manifest_doc
  parent :: "string option"

record container_config =
  Labels :: "(string \<rightharpoonup> string) option"

record image_config =
  config :: "container_config option"

record registry =
  manifest_at :: "string \<Rightarrow> string \<Rightarrow> exn + manifest_doc"
  blob_at :: "string \<Rightarrow> string \<Rightarrow> exn + image_config"

definition manifestTypes :: "string list" where
  "manifestTypes = [''application/vnd.docker.distribution.manifest.v2+json'',
                    ''application/vnd.oci.image.manifest.v1+json'']"

definition indexTypes :: "string list" where
  "indexTypes = [''application/vnd.docker.distribution.manifest.list.v2+json'',
                 ''application/vnd.oci.image.index.v1+json'']"

definition array_includes :: "string list \<Rightarrow> string option \<Rightarrow> bool" where
  \<comment> \<open>\<^verbatim>\<open>types.includes(response.mediaType)\<close>, false for \<open>undefined\<close>\<close>
  "array_includes xs x = (case x of None \<Rightarrow> False | Some s \<Rightarrow> s \<in> set xs)"

definition DockerRepository :: "string \<Rightarrow> string \<Rightarrow> string" where
  \<comment> \<open>the constructor: the base URL \<^verbatim>\<open>/v2/${namespace}/${repository}/\<close>\<close>
  "DockerRepository repository namespace = ''/v2/'' @ namespace @ ''/'' @ repository @ ''/''"

text \<open>
  \<open>fetchManifests\<close> fetches the manifest at a reference; a manifest is delivered as it is,
  an index is expanded by fetching each of its entries in turn, and each manifest found
  that way is marked with the index as its parent. The recursion follows what the
  registry answers, so nothing bounds it: \<open>fuel\<close> bounds the depth of the calls, and the
  stream ends in \<open>Diverge\<close> where that depth is not enough.
\<close>

fun fetchManifests :: "nat \<Rightarrow> registry \<Rightarrow> string \<Rightarrow> string \<Rightarrow> manifest event list" where
  "fetchManifests 0 reg baseUrl ref = [Diverge]"
| "fetchManifests (Suc fuel) reg baseUrl ref =
     Eff (Request (GetManifest baseUrl ref)) #
     (case manifest_at reg baseUrl ref of
        Inl e \<Rightarrow> [Fail e]
      | Inr response \<Rightarrow>
          if array_includes manifestTypes (mediaType response)
          then [Item \<lparr>reference = ref, doc = response, parent = None\<rparr>]
          else if array_includes indexTypes (mediaType response)
          then (case manifests response of
                  None \<Rightarrow> [Fail (TypeError ''manifests'')]
                | Some ds \<Rightarrow>
                    map_stream (\<lambda>m. [Item (m\<lparr>parent := Some ref\<rparr>)])
                      (flatMap_stream (\<lambda>digest. fetchManifests fuel reg baseUrl digest)
                         (map Item ds)))
          else [Fail (UnknownMediaType (mediaType response))])"

definition fetchConfig ::
  "registry \<Rightarrow> string \<Rightarrow> manifest \<Rightarrow> (image_config \<times> manifest) event list" where
  "fetchConfig reg baseUrl m =
     (case config_digest (doc m) of
        None \<Rightarrow> [Fail (TypeError ''digest'')]
      | Some digest \<Rightarrow>
          Eff (Request (GetBlob baseUrl digest)) #
          (case blob_at reg baseUrl digest of
             Inl e \<Rightarrow> [Fail e]
           | Inr data \<Rightarrow> [Item (data, m)]))"

definition fetchConfigs ::
  "nat \<Rightarrow> registry \<Rightarrow> string \<Rightarrow> string \<Rightarrow> (image_config \<times> manifest) event list" where
  "fetchConfigs fuel reg baseUrl ref =
     map_stream (fetchConfig reg baseUrl) (fetchManifests fuel reg baseUrl ref)"

subsection \<open>Packages, versions and the world around a run\<close>

text \<open>
  A version as the packages API lists it; \<open>updated_at\<close> holds the time value of
  \<^verbatim>\<open>new Date(version.updated_at)\<close>, \<open>None\<close> when the text is not a date, and \<open>tags\<close> is
  \<open>metadata.container.tags\<close>. The script then adds three fields to it.
\<close>

record package_version =
  name :: string
  updated_at :: date
  url :: string
  html_url :: string
  tags :: "string list"

record version = package_version +
  repository :: string
  image_ref :: string
  displayImage :: string

record repo_ref =
  node_id :: string

record pkg =
  pkg_name :: string
  owner_login :: string
  pkg_url :: string
  pkg_repository :: "repo_ref option"

text \<open>
  Everything a run reads from outside: the local time zone, the two clock readings, the
  registry, the version listing of a package and the answer to a delete request.
\<close>

record world =
  zone :: zone
  clock1 :: int
  clock2 :: int
  the_registry :: registry
  versions_of :: "string \<Rightarrow> exn + package_version list"
  delete_version :: "string \<Rightarrow> exn + unit"

subsection \<open>The retention decision\<close>

definition versionLabel :: string where
  "versionLabel = ''org.opencontainers.image.version''"

text \<open>
  The callback of \<open>configs.every\<close>. It returns \<open>true\<close> when the configuration does not stand
  in the way of deleting the version. \<open>!refName\<close> holds for a label that is absent and for
  one that is the empty string.
\<close>

definition everyCallback ::
  "string list \<Rightarrow> version \<Rightarrow> (image_config \<times> manifest) \<Rightarrow> bool event list" where
  "everyCallback refs v c =
     (case config (fst c) of
        None \<Rightarrow> [Fail (TypeError ''Labels'')]
      | Some cc \<Rightarrow>
          (case Labels cc of
             None \<Rightarrow> [Fail (TypeError versionLabel)]
           | Some labels \<Rightarrow>
               (case labels versionLabel of
                  None \<Rightarrow> [Eff (Log Error (NoVersionLabel (displayImage v))), Item False]
                | Some refName \<Rightarrow>
                    if refName = []
                    then [Eff (Log Error (NoVersionLabel (displayImage v))), Item False]
                    else [Eff (Log Debug (VersionOf (displayImage v) refName)),
                          Item (refName \<notin> set refs)])))"

text \<open>
  The callback of \<open>versions.filter\<close>: the body of its \<open>try\<close>, and the whole callback, which
  returns \<open>undefined\<close> (a falsy value) from the handler.
\<close>

definition tryBody :: "nat \<Rightarrow> world \<Rightarrow> string list \<Rightarrow> version \<Rightarrow> bool event list" where
  "tryBody fuel w refs v =
     (let updated = updated_at v in
      if date_gt updated (minAge (zone w) (clock1 w))
      then [Eff (Log Info (TooNew (displayImage v))), Item False]
      else if date_lt updated (maxAge (zone w) (clock1 w) (clock2 w))
      then [Eff (Log Info (TooOld (displayImage v))), Item True]
      else every (everyCallback refs v)
             (fetchConfigs fuel (the_registry w) (repository v) (name v)))"

definition filterCallback :: "nat \<Rightarrow> world \<Rightarrow> string list \<Rightarrow> version \<Rightarrow> bool event list" where
  "filterCallback fuel w refs v =
     Eff (Log Debug (Processing (displayImage v))) #
     try_catch (tryBody fuel w refs v)
       (\<lambda>ex. [Eff (Log Error (ErrorWhileProcessing (displayImage v) ex)), Item False])"

subsection \<open>The pipeline of main\<close>

text \<open>
  \<^verbatim>\<open>pkg.repository && pkg.repository.node_id === repo.node_id\<close>: the right operand is
  evaluated only when the left one is truthy. Reading \<open>node_id\<close> from an absent
  \<open>repository\<close> would throw.
\<close>

definition node_id_of :: "repo_ref option \<Rightarrow> string event list" where
  "node_id_of r =
     (case r of None \<Rightarrow> [Fail (TypeError ''node_id'')] | Some x \<Rightarrow> [Item (node_id x)])"

definition repoPackagesCallback :: "string \<Rightarrow> pkg \<Rightarrow> bool event list" where
  "repoPackagesCallback repo_node_id p =
     (if pkg_repository p = None then [Item False]
      else bind (node_id_of (pkg_repository p)) (\<lambda>n. [Item (n = repo_node_id)]))"

definition repoPackages :: "string \<Rightarrow> pkg event list \<Rightarrow> pkg event list" where
  "repoPackages repo_node_id packages =
     filter_stream (repoPackagesCallback repo_node_id) packages"

definition withVersions :: "world \<Rightarrow> pkg \<Rightarrow> (pkg \<times> package_version list) event list" where
  "withVersions w p =
     Eff (Request (ListVersions (pkg_url p))) #
     (case versions_of w (pkg_url p) of
        Inl e \<Rightarrow> [Fail e]
      | Inr vs \<Rightarrow> [Item (p, vs)])"

definition repoPackagesWithVersions ::
  "world \<Rightarrow> pkg event list \<Rightarrow> (pkg \<times> package_version list) event list" where
  "repoPackagesWithVersions w s = map_stream (withVersions w) s"

definition versionsOfPackage :: "pkg \<times> package_version list \<Rightarrow> version list" where
  "versionsOfPackage pv =
     (let p = fst pv;
          repository = DockerRepository (pkg_name p) (owner_login p);
          image = owner_login p @ ''/'' @ pkg_name p
      in map (\<lambda>v. \<lparr>name = name v, updated_at = updated_at v, url = url v,
                     html_url = html_url v, tags = tags v,
                     repository = repository,
                     image_ref = image @ ''@'' @ name v,
                     displayImage = (case tags v of [] \<Rightarrow> image @ ''@'' @ name v
                                     | t # ts \<Rightarrow> image @ '':'' @ t)\<rparr>) (snd pv))"

definition versions :: "(pkg \<times> package_version list) event list \<Rightarrow> version event list" where
  "versions s = flatMap_stream (\<lambda>pv. map Item (versionsOfPackage pv)) s"

definition toDelete ::
  "nat \<Rightarrow> world \<Rightarrow> string list \<Rightarrow> version event list \<Rightarrow> version event list" where
  "toDelete fuel w refs s = filter_stream (filterCallback fuel w refs) s"

definition deleteCallback :: "bool \<Rightarrow> world \<Rightarrow> version \<Rightarrow> unit event list" where
  "deleteCallback dryRun w v =
     Eff (Log Info (Deleting (displayImage v) (html_url v))) #
     (if dryRun then [Eff (Log Info (DeleteLine (url v))), Item ()]
      else Eff (Request (DeleteVersion (url v))) #
           (case delete_version w (url v) of
              Inl e \<Rightarrow> [Fail e]
            | Inr u \<Rightarrow> [Item ()]))"

definition deleted :: "bool \<Rightarrow> world \<Rightarrow> version event list \<Rightarrow> nat event list" where
  "deleted dryRun w s = reduce_count 0 (map_stream (deleteCallback dryRun w) s)"

text \<open>
  The versions marked for deletion in a run and the run itself, which ends with the
  summary line. \<open>packages\<close> is the listing of the owner's container packages as received;
  reading it is not part of the model.
\<close>

definition marked ::
  "nat \<Rightarrow> world \<Rightarrow> string \<Rightarrow> string list \<Rightarrow> pkg list \<Rightarrow> version event list" where
  "marked fuel w repo_node_id refs packages =
     toDelete fuel w refs
       (versions (repoPackagesWithVersions w (repoPackages repo_node_id (map Item packages))))"

definition main ::
  "nat \<Rightarrow> bool \<Rightarrow> world \<Rightarrow> string \<Rightarrow> string list \<Rightarrow> pkg list \<Rightarrow> unit event list" where
  "main fuel dryRun w repo_node_id refs packages =
     bind (deleted dryRun w (marked fuel w repo_node_id refs packages))
       (\<lambda>n. if dryRun then [Eff (Log Info (WillDelete n))]
             else [Eff (Log Info (Deleted n))])"

subsection \<open>Fuel\<close>



subsection \<open>The label of a configuration\<close>

text \<open>
  The version label of a resolved configuration, when \<open>config\<close>, \<open>Labels\<close> and the label are
  all there. \<open>votes_delete\<close> holds when the label is there, is not empty and is not one of
  the reference names. \<open>label_present_unprotected\<close> is the wording of the specification:
  the label is present with a value not in the protected reference set.
\<close>

definition label_of :: "image_config \<times> manifest \<Rightarrow> string option" where
  "label_of c = (case config (fst c) of None \<Rightarrow> None
     | Some cc \<Rightarrow> (case Labels cc of None \<Rightarrow> None | Some labels \<Rightarrow> labels versionLabel))"

definition votes_delete :: "string list \<Rightarrow> image_config \<times> manifest \<Rightarrow> bool" where
  "votes_delete refs c = (case label_of c of None \<Rightarrow> False
     | Some x \<Rightarrow> x \<noteq> [] \<and> x \<notin> set refs)"


subsection \<open>Examples\<close>

text \<open>
  Concrete inputs for the scenarios below. The clock readings are 2025-06-15T12:00:00Z and
  2026-01-01T12:00:00Z. The example registry answers every manifest request with one
  single-platform manifest and every blob request with the given configuration; the
  broken one answers every request with an HTTP error.
\<close>

definition mid_june_2025 :: int where
  "mid_june_2025 = 1749988800000"

definition new_year_2026 :: int where
  "new_year_2026 = 1767268800000"

definition example_refs :: "string list" where
  "example_refs = collectRefs [''main''] [''v1.0.0''] [42]"

definition leaf_doc :: manifest_doc where
  "leaf_doc = \<lparr>mediaType = Some ''application/vnd.oci.image.manifest.v1+json'',
               config_digest = Some ''sha256:c0'', manifests = None\<rparr>"

definition labelled :: "string \<Rightarrow> image_config" where
  "labelled x = \<lparr>config = Some \<lparr>Labels = Some [versionLabel \<mapsto> x]\<rparr>\<rparr>"

definition unlabelled :: image_config where
  "unlabelled = \<lparr>config = Some \<lparr>Labels = None\<rparr>\<rparr>"

definition single_registry :: "image_config \<Rightarrow> registry" where
  "single_registry cfg = \<lparr>manifest_at = (\<lambda>b r. Inr leaf_doc), blob_at = (\<lambda>b d. Inr cfg)\<rparr>"

definition broken_registry :: registry where
  "broken_registry = \<lparr>manifest_at = (\<lambda>b r. Inl (HttpError ''503'')),
                       blob_at = (\<lambda>b d. Inl (HttpError ''503''))\<rparr>"



definition example_listing :: "date \<Rightarrow> package_version list" where
  "example_listing u = [\<lparr>name = ''sha256:a0'', updated_at = u,
     url = ''https://api.github.com/users/ddterm/packages/container/img/versions/1'',
     html_url = ''https://github.com/ddterm/img/pkgs/container/img/1'', tags = [''old'']\<rparr>]"

definition example_world ::
  "int \<Rightarrow> registry \<Rightarrow> date \<Rightarrow> (string \<Rightarrow> exn + unit) \<Rightarrow> world" where
  "example_world clock reg u del = \<lparr>zone = utc, clock1 = clock, clock2 = clock,
     the_registry = reg, versions_of = (\<lambda>url. Inr (example_listing u)),
     delete_version = del\<rparr>"

text \<open>
  The same world in New York, and two clock readings there: 2025-03-09T16:00:00Z, nine
  hours after the clocks went forward, and 2025-11-02T17:00:00Z, eleven hours after they
  went back.
\<close>

definition new_york_world ::
  "int \<Rightarrow> registry \<Rightarrow> date \<Rightarrow> (string \<Rightarrow> exn + unit) \<Rightarrow> world" where
  "new_york_world clock reg u del = \<lparr>zone = new_york, clock1 = clock, clock2 = clock,
     the_registry = reg, versions_of = (\<lambda>url. Inr (example_listing u)),
     delete_version = del\<rparr>"

definition spring_2025 :: int where
  "spring_2025 = 1741536000000"

definition autumn_2025 :: int where
  "autumn_2025 = 1762102800000"



definition example_pkg :: "repo_ref option \<Rightarrow> pkg" where
  "example_pkg r = \<lparr>pkg_name = ''img'', owner_login = ''ddterm'',
     pkg_url = ''https://api.github.com/users/ddterm/packages/container/img'',
     pkg_repository = r\<rparr>"

definition example_version :: "date \<Rightarrow> version" where
  \<comment> \<open>the one version of \<open>example_pkg\<close>, as \<open>versionsOfPackage\<close> prepares it\<close>
  "example_version u = \<lparr>name = ''sha256:a0'', updated_at = u,
     url = ''https://api.github.com/users/ddterm/packages/container/img/versions/1'',
     html_url = ''https://github.com/ddterm/img/pkgs/container/img/1'', tags = [''old''],
     repository = ''/v2/ddterm/img/'', image_ref = ''ddterm/img@sha256:a0'',
     displayImage = ''ddterm/img:old''\<rparr>"

section \<open>Lemmas\<close>

subsection \<open>The calendar\<close>

lemma div_lo: "0 < (k::int) \<Longrightarrow> k * (a div k) \<le> a"
  using mult_div_mod_eq[of k a] pos_mod_sign[of k a] by linarith
lemma div_hi: "0 < (k::int) \<Longrightarrow> a < k * (a div k) + k"
  using mult_div_mod_eq[of k a] pos_mod_bound[of k a] by linarith

lemma step_div:
  fixes k x :: int assumes "0 < k"
  shows "(x + 1) div k = x div k + (if (x + 1) mod k = 0 then 1 else 0)"
proof -
  define q r where "q = x div k" and "r = x mod k"
  have x: "x = k * q + r" and r0: "0 \<le> r" and rk: "r < k"
    using assms by (simp_all add: q_def r_def)
  show ?thesis
  proof (cases "r + 1 = k")
    case True
    then have e: "x + 1 = k * (q + 1) + 0" using x by (simp add: algebra_simps)
    have "(x + 1) div k = q + 1" using assms by (intro int_div_pos_eq[OF e]) simp_all
    moreover have "(x + 1) mod k = 0" using assms by (intro int_mod_pos_eq[OF e]) simp_all
    ultimately show ?thesis by (simp add: q_def)
  next
    case False
    then have lt: "r + 1 < k" using rk by linarith
    have e: "x + 1 = k * q + (r + 1)" using x by simp
    have "(x + 1) div k = q" using r0 lt by (intro int_div_pos_eq[OF e]) simp_all
    moreover have "(x + 1) mod k = r + 1" using r0 lt by (intro int_mod_pos_eq[OF e]) simp_all
    ultimately show ?thesis using r0 by (simp add: q_def)
  qed
qed

lemma a4: "(y - 1968) mod 4 = y mod 4" for y :: int
  using mod_mult_self2[of y 4 "-492"] by simp
lemma a100: "(y - 1900) mod 100 = y mod 100" for y :: int
  using mod_mult_self2[of y 100 "-19"] by simp
lemma a400: "(y - 1600) mod 400 = y mod 400" for y :: int
  using mod_mult_self2[of y 400 "-4"] by simp
lemma m100: "y mod 100 = 0 \<Longrightarrow> y mod 4 = 0" for y :: int
  using mod_mod_cancel[of 4 100 y] by simp
lemma m400: "y mod 400 = 0 \<Longrightarrow> y mod 100 = 0" for y :: int
  using mod_mod_cancel[of 100 400 y] by simp

lemma DayFromYear_step: "DayFromYear (y + 1) = DayFromYear y + DaysInYear y"
proof -
  have 1: "(y - 1968) div 4 = (y - 1969) div 4 + (if y mod 4 = 0 then 1 else 0)"
    using step_div[of 4 "y - 1969"] a4[of y] by simp
  have 2: "(y - 1900) div 100 = (y - 1901) div 100 + (if y mod 100 = 0 then 1 else 0)"
    using step_div[of 100 "y - 1901"] a100[of y] by simp
  have 3: "(y - 1600) div 400 = (y - 1601) div 400 + (if y mod 400 = 0 then 1 else 0)"
    using step_div[of 400 "y - 1601"] a400[of y] by simp
  have e: "DayFromYear (y + 1) =
      365 * (y - 1969) + (y - 1968) div 4 - (y - 1900) div 100 + (y - 1600) div 400"
    by (simp add: DayFromYear_def)
  consider (a) "y mod 4 \<noteq> 0" | (b) "y mod 4 = 0" "y mod 100 \<noteq> 0"
    | (c) "y mod 100 = 0" "y mod 400 \<noteq> 0" | (d) "y mod 400 = 0"
    by argo
  then show ?thesis
  proof cases
    case a
    then have "y mod 100 \<noteq> 0" "y mod 400 \<noteq> 0" using m100[of y] m400[of y] by auto
    with a show ?thesis unfolding e 1 2 3 by (simp add: DayFromYear_def DaysInYear_def)
  next
    case b
    then have "y mod 400 \<noteq> 0" using m400[of y] by auto
    with b show ?thesis unfolding e 1 2 3 by (simp add: DayFromYear_def DaysInYear_def)
  next
    case c
    then have "y mod 4 = 0" using m100[of y] by auto
    with c show ?thesis unfolding e 1 2 3 by (simp add: DayFromYear_def DaysInYear_def)
  next
    case d
    then have "y mod 100 = 0" "y mod 4 = 0" using m100[of y] m400[of y] by auto
    with d show ?thesis unfolding e 1 2 3 by (simp add: DayFromYear_def DaysInYear_def)
  qed
qed

lemma DayFromYear_upper: "400 * DayFromYear y \<le> 146097 * y - 287810501"
  using div_lo[of 4 "y - 1969"] div_hi[of 100 "y - 1901"] div_lo[of 400 "y - 1601"]
  unfolding DayFromYear_def by simp

lemma DayFromYear_lower: "146097 * y - 287811596 \<le> 400 * DayFromYear y"
  using div_hi[of 4 "y - 1969"] div_lo[of 100 "y - 1901"] div_hi[of 400 "y - 1601"]
  unfolding DayFromYear_def by simp

lemma DayFromYear_less: "y < z \<Longrightarrow> DayFromYear y + 363 \<le> DayFromYear z"
  using DayFromYear_upper[of y] DayFromYear_lower[of z] by linarith

lemma DayFromYear_mono: "y \<le> z \<Longrightarrow> DayFromYear y \<le> DayFromYear z"
  using DayFromYear_less[of y z] by (cases "y = z") auto

lemma YearFromTime_spec:
  "DayFromYear (YearFromTime t) \<le> Day t \<and> Day t < DayFromYear (YearFromTime t + 1)"
proof -
  define d where "d = Day t"
  define q where "q = (400 * d) div 146097"
  have q1: "146097 * q \<le> 400 * d" and q2: "400 * d < 146097 * q + 146097"
    using div_lo[of 146097 "400 * d"]  div_hi[of 146097 "400 * d"] unfolding q_def by simp_all
  define y where "y = 1970 + q"
  have "400 * DayFromYear (y - 1) \<le> 146097 * q - 145508"
    using DayFromYear_upper[of "y - 1"] by (simp add: y_def algebra_simps)
  with q1 have lo: "DayFromYear (y - 1) \<le> d" by linarith
  have "146097 * q + 291098 \<le> 400 * DayFromYear (y + 1 + 1)"
    using DayFromYear_lower[of "y + 1 + 1"] by (simp add: y_def algebra_simps)
  with q2 have hi: "d < DayFromYear (y + 1 + 1)" by linarith
  have "YearFromTime t = (if DayFromYear (y + 1) \<le> d then y + 1 else if DayFromYear y \<le> d then y else y - 1)"
    unfolding YearFromTime_def Let_def d_def q_def y_def ..
  then show ?thesis
    using lo hi unfolding d_def[symmetric] by (simp split: if_splits)
qed

lemma YearFromTime_unique:
  assumes "DayFromYear y \<le> Day t" "Day t < DayFromYear (y + 1)"
  shows "YearFromTime t = y"
proof (rule ccontr)
  assume ne: "YearFromTime t \<noteq> y"
  show False
  proof (cases "YearFromTime t < y")
    case True
    then have "DayFromYear (YearFromTime t + 1) \<le> DayFromYear y"
      by (intro DayFromYear_mono) simp
    with YearFromTime_spec[of t] assms show False by linarith
  next
    case False
    with ne have "y + 1 \<le> YearFromTime t" by simp
    then have "DayFromYear (y + 1) \<le> DayFromYear (YearFromTime t)" by (rule DayFromYear_mono)
    with YearFromTime_spec[of t] assms show False by linarith
  qed
qed


lemma MonthFromTime_range: "0 \<le> MonthFromTime t \<and> MonthFromTime t < 12"
  by (simp add: MonthFromTime_def Let_def)

lemma DaysBeforeMonth_Date:
  "DaysBeforeMonth (MonthFromTime t) (InLeapYear t) + DateFromTime t = DayWithinYear t + 1"
  by (simp add: DaysBeforeMonth_def DateFromTime_def MonthFromTime_def Let_def)

lemma MakeDay_own_year:
  "MakeDay (YearFromTime t) (MonthFromTime t) dt = Day t - DateFromTime t + dt"
proof -
  have m: "MonthFromTime t div 12 = 0" "MonthFromTime t mod 12 = MonthFromTime t"
    using MonthFromTime_range[of t] by simp_all
  have "MakeDay (YearFromTime t) (MonthFromTime t) dt =
      DayFromYear (YearFromTime t) + DaysBeforeMonth (MonthFromTime t) (InLeapYear t) + dt - 1"
    by (simp add: MakeDay_def m InLeapYear_def)
  then show ?thesis using DaysBeforeMonth_Date[of t] by (simp add: DayWithinYear_def)
qed

lemma Day_TimeWithinDay: "MakeDate (Day t) (TimeWithinDay t) = t"
  by (simp add: MakeDate_def Day_def TimeWithinDay_def)





text \<open>
  The too-new cutoff: the same local time of day on the previous calendar day, read back
  as a time value. It is one day before the clock reading, moved by the change of offset
  between the two.
\<close>

lemma minAge_value:
  assumes "clock_ok clock"
  shows "minAge z clock = TimeClip (clock - msPerDay + offset_shift z clock)"
proof -
  define t where "t = LocalTime z clock"
  have c: "newDate clock = Some clock"
    using assms by (simp add: newDate_def TimeClip_def clock_ok_def)
  have "MakeDate (MakeDay (YearFromTime t) (MonthFromTime t) (DateFromTime t - 1)) (TimeWithinDay t)
      = MakeDate (Day t) (TimeWithinDay t) - msPerDay"
    unfolding MakeDay_own_year by (simp add: MakeDate_def algebra_simps)
  then have "UTC z (MakeDate (MakeDay (YearFromTime t) (MonthFromTime t) (DateFromTime t - 1))
        (TimeWithinDay t))
      = clock - msPerDay + offset_shift z clock"
    by (simp add: Day_TimeWithinDay t_def UTC_def LocalTime_def offset_shift_def)
  then show ?thesis
    by (simp add: minAge_def c getDate_def setDate_def Let_def t_def)
qed


lemma minAge_Some:
  assumes "clock_ok clock" "minAge z clock = Some m"
  shows "m = clock - msPerDay + offset_shift z clock"
  using assms(2) unfolding minAge_value[OF assms(1)]
  by (simp add: TimeClip_def split: if_splits)

lemma month_cases:
  "0 \<le> (m::int) \<Longrightarrow> m < 12 \<Longrightarrow>
   m = 0 \<or> m = 1 \<or> m = 2 \<or> m = 3 \<or> m = 4 \<or> m = 5 \<or> m = 6 \<or> m = 7 \<or> m = 8 \<or> m = 9
   \<or> m = 10 \<or> m = 11"
  by arith



lemma MakeDay_find:
  assumes "0 \<le> mn" "mn < 12" and t_def: "t = MakeDate (MakeDay ym mn 1) 0"
  shows "YearFromTime t = ym \<and> MonthFromTime t = mn \<and> DateFromTime t = 1"
proof -
  define l :: int where "l = (if DaysInYear ym = 365 then 0 else 1)"
  have m: "mn div 12 = 0" "mn mod 12 = mn" using assms by simp_all
  have d: "Day t = DayFromYear ym + DaysBeforeMonth mn l"
    by (simp add: t_def MakeDate_def MakeDay_def m Day_def msPerDay_def l_def)
  have diy: "DaysInYear ym = 365 + l"
    by (simp add: l_def DaysInYear_def)
  have b: "0 \<le> DaysBeforeMonth mn l" "DaysBeforeMonth mn l < 365 + l"
    by (simp_all add: DaysBeforeMonth_def l_def)
  have y: "YearFromTime t = ym"
    by (rule YearFromTime_unique) (use d b diy in \<open>simp_all add: DayFromYear_step\<close>)
  have il: "InLeapYear t = l" by (simp add: InLeapYear_def y l_def)
  have dw: "DayWithinYear t = DaysBeforeMonth mn l" by (simp add: DayWithinYear_def y d)
  have l01: "l = 0 \<or> l = 1" by (simp add: l_def)
  have mo: "MonthFromTime t = mn"
    using month_cases[OF assms(1,2)] l01
    by (elim disjE; simp add: MonthFromTime_def il dw DaysBeforeMonth_def)
  have "DateFromTime t = 1"
    using month_cases[OF assms(1,2)] l01
    by (elim disjE; simp add: DateFromTime_def mo il dw DaysBeforeMonth_def)
  with y mo show ?thesis by simp
qed




subsection \<open>Streams\<close>

lemma seq_assoc: "seq (seq a b) c = seq a (seq b c)"
  by (induction a rule: delivered.induct) simp_all

lemma delivered_seq:
  "delivered (seq a b) = delivered a @ (if ending a = Completed then delivered b else [])"
  by (induction a rule: delivered.induct) simp_all

lemma effects_seq:
  "effects (seq a b) = effects a @ (if ending a = Completed then effects b else [])"
  by (induction a rule: delivered.induct) simp_all

lemma ending_seq:
  "ending (seq a b) = (if ending a = Completed then ending b else ending a)"
  by (induction a rule: delivered.induct) simp_all

lemma bind_append: "bind (a @ b) f = seq (bind a f) (bind b f)"
  by (induction a rule: delivered.induct) (simp_all add: seq_assoc)


lemma logged_append: "logged (a @ b) = logged a @ logged b"
  by (induction a rule: logged.induct) simp_all

subsection \<open>sanitizeTag\<close>

lemma allowed_dash: "allowed CHR ''-''"
  by (simp add: allowed_def)

lemma sanitizeTag_allowed: "c \<in> set (sanitizeTag s) \<Longrightarrow> allowed c"
  by (induction s rule: sanitizeTag.induct) (auto simp: allowed_dash split: if_splits)

lemma sanitizeTag_id: "(\<And>c. c \<in> set s \<Longrightarrow> allowed c) \<Longrightarrow> sanitizeTag s = s"
  by (induction s) auto

lemma dropWhile_differ:
  "list_all2 (\<lambda>a b. a = b \<or> (\<not> allowed a \<and> \<not> allowed b)) x y \<Longrightarrow>
   list_all2 (\<lambda>a b. a = b \<or> (\<not> allowed a \<and> \<not> allowed b))
     (dropWhile (\<lambda>d. \<not> allowed d) x) (dropWhile (\<lambda>d. \<not> allowed d) y)"
  by (induction rule: list_all2_induct) auto

lemma filter_dropWhile_allowed:
  "filter allowed (dropWhile (\<lambda>d. \<not> allowed d) xs) = filter allowed xs"
  by (induction xs) simp_all

lemma same_runs_sanitizeTag: "same_runs x y \<Longrightarrow> sanitizeTag x = sanitizeTag y"
  by (induction x y rule: same_runs.induct) (simp_all split: if_splits)

lemma same_runs_filter: "same_runs x y \<Longrightarrow> filter allowed x = filter allowed y"
proof (induction x y rule: same_runs.induct)
  case (4 a xs b ys)
  show ?case
  proof (cases "allowed a")
    case True
    with 4 show ?thesis by simp
  next
    case False
    with 4 have "filter allowed (dropWhile (\<lambda>c. \<not> allowed c) xs)
        = filter allowed (dropWhile (\<lambda>c. \<not> allowed c) ys)" and "\<not> allowed b"
      by simp_all
    with False show ?thesis by (simp add: filter_dropWhile_allowed)
  qed
qed simp_all

text \<open>
  Strings of the same length that hold, at every position, the same character or two
  disallowed ones have the same runs.
\<close>

lemma pointwise_same_runs:
  "list_all2 (\<lambda>a b. a = b \<or> (\<not> allowed a \<and> \<not> allowed b)) x y \<Longrightarrow> same_runs x y"
proof (induction x y rule: same_runs.induct)
  case (4 a xs b ys)
  then have ab: "a = b \<or> (\<not> allowed a \<and> \<not> allowed b)"
    and r: "list_all2 (\<lambda>a b. a = b \<or> (\<not> allowed a \<and> \<not> allowed b)) xs ys"
    by simp_all
  show ?case
  proof (cases "allowed a")
    case True
    with ab 4(1)[OF True r] show ?thesis by auto
  next
    case False
    with ab 4(2)[OF False dropWhile_differ[OF r]] show ?thesis by auto
  qed
qed simp_all

subsection \<open>The package filter\<close>

lemma repoPackagesCallback_None:
  "pkg_repository p = None \<Longrightarrow> repoPackagesCallback rid p = [Item False]"
  by (simp add: repoPackagesCallback_def)

lemma repoPackages_skip:
  assumes "pkg_repository p = None"
  shows "repoPackages rid (s1 @ Item p # s2) = repoPackages rid (s1 @ s2)"
  by (simp add: repoPackages_def filter_stream_def bind_append
      repoPackagesCallback_None[OF assms])

subsection \<open>Observing streams built by the operators\<close>

lemma delivered_try_catch:
  "delivered (try_catch a h) =
     delivered a @ (case ending a of Raised e \<Rightarrow> delivered (h e) | _ \<Rightarrow> [])"
  by (induction a rule: delivered.induct) simp_all

lemma effects_try_catch:
  "effects (try_catch a h) =
     effects a @ (case ending a of Raised e \<Rightarrow> effects (h e) | _ \<Rightarrow> [])"
  by (induction a rule: delivered.induct) simp_all

lemma ending_try_catch:
  "ending (try_catch a h) = (case ending a of Raised e \<Rightarrow> ending (h e) | x \<Rightarrow> x)"
  by (induction a rule: delivered.induct) simp_all

lemma delivered_bind_filter:
  "delivered (bind c (\<lambda>b. if b then [Item x] else [])) =
     concat (map (\<lambda>b. if b then [x] else []) (delivered c))"
  by (induction c rule: delivered.induct) (simp_all add: delivered_seq)

lemma ending_bind_filter:
  "ending (bind c (\<lambda>b. if b then [Item x] else [])) = ending c"
  by (induction c rule: delivered.induct) (simp_all add: ending_seq)

subsection \<open>The votes and \<open>every\<close>\<close>

lemma everyCallback_cases:
  "(\<exists>t. everyCallback refs v c = [Fail (TypeError t)] \<and> \<not> votes_delete refs c)
   \<or> (everyCallback refs v c = [Eff (Log Error (NoVersionLabel (displayImage v))), Item False]
        \<and> \<not> votes_delete refs c)
   \<or> (\<exists>x. everyCallback refs v c = [Eff (Log Debug (VersionOf (displayImage v) x)), Item False]
        \<and> \<not> votes_delete refs c)
   \<or> (\<exists>x. everyCallback refs v c = [Eff (Log Debug (VersionOf (displayImage v) x)), Item True]
        \<and> votes_delete refs c)"
  by (auto simp: everyCallback_def votes_delete_def label_of_def split: option.splits)

lemma every_delivered_True:
  "delivered (every (everyCallback refs v) cs) = [True]
   \<longleftrightarrow> ending cs = Completed \<and> list_all (votes_delete refs) (delivered cs)"
proof (induction cs rule: delivered.induct)
  case (2 x es)
  from everyCallback_cases[of refs v x] show ?case
    using 2 by (elim disjE exE conjE) (simp_all add: delivered_seq)
qed simp_all

lemma every_shape:
  "delivered (every (everyCallback refs v) cs) =
     (if ending (every (everyCallback refs v) cs) = Completed
      then [ending cs = Completed \<and> list_all (votes_delete refs) (delivered cs)] else [])"
proof (induction cs rule: delivered.induct)
  case (2 x es)
  from everyCallback_cases[of refs v x] show ?case
    using 2 by (elim disjE exE conjE) (simp_all add: delivered_seq ending_seq)
qed simp_all

lemma every_not_Diverged:
  "ending cs \<noteq> Diverged \<Longrightarrow> ending (every (everyCallback refs v) cs) \<noteq> Diverged"
proof (induction cs rule: delivered.induct)
  case (2 x es)
  from everyCallback_cases[of refs v x] show ?case
    using 2 by (elim disjE exE conjE) (simp_all add: ending_seq)
qed simp_all

subsection \<open>The age bands\<close>

lemma not_too_new:
  assumes "clock_ok k" "u \<le> k - msPerDay + offset_shift z k"
  shows "\<not> date_gt (Some u) (minAge z k)"
  using assms(2) by (simp add: minAge_value[OF assms(1)] TimeClip_def date_gt_def)


text \<open>
  The cutoffs in New York on the two example days: 23 hours and 25 hours before the clock
  reading, and 2024-03-09T17:00:00Z, the same local time of day a year before the first.
\<close>

lemma new_york_cutoffs:
  "minAge new_york spring_2025 = Some 1741453200000
   \<and> minAge new_york spring_2025 = Some (spring_2025 - 23 * 3600000)
   \<and> maxAge new_york spring_2025 spring_2025 = Some 1710003600000
   \<and> minAge new_york autumn_2025 = Some (autumn_2025 - 25 * 3600000)"
  by code_simp

text \<open>
  The cutoff of the too-old rule is the date one year before the second clock reading
  whenever \<open>minAge\<close> lies in the same local year as the second reading; and a version older
  than the cutoff, and not too new, is marked without any request.
\<close>

lemma maxAge_same_year:
  assumes "getFullYear z (minAge z k1) = getFullYear z (newDate k2)"
  shows "maxAge z k1 k2 = oneYearBefore z k2"
  using assms by (simp add: maxAge_def oneYearBefore_def Let_def)

lemma too_old_version_deleted:
  assumes "updated_at v = Some u"
    and "\<not> date_gt (Some u) (minAge (zone w) (clock1 w))"
    and "date_lt (Some u) (maxAge (zone w) (clock1 w) (clock2 w))"
  shows "filterCallback fuel w refs v =
       [Eff (Log Debug (Processing (displayImage v))),
        Eff (Log Info (TooOld (displayImage v))), Item True]"
  using assms by (simp add: filterCallback_def tryBody_def)

lemma filterCallback_middle:
  assumes "\<not> date_gt (updated_at v) (minAge (zone w) (clock1 w))"
    and "\<not> date_lt (updated_at v) (maxAge (zone w) (clock1 w) (clock2 w))"
    and "ending (fetchConfigs fuel (the_registry w) (repository v) (name v)) \<noteq> Diverged"
  shows "delivered (filterCallback fuel w refs v) =
     [ending (fetchConfigs fuel (the_registry w) (repository v) (name v)) = Completed
      \<and> list_all (votes_delete refs)
           (delivered (fetchConfigs fuel (the_registry w) (repository v) (name v)))]"
proof -
  define cs where "cs = fetchConfigs fuel (the_registry w) (repository v) (name v)"
  define E where "E = every (everyCallback refs v) cs"
  have t: "tryBody fuel w refs v = E"
    using assms(1,2) by (simp add: tryBody_def E_def cs_def)
  have nd: "ending E \<noteq> Diverged"
    unfolding E_def by (rule every_not_Diverged) (use assms(3) in \<open>simp add: cs_def\<close>)
  have sh: "delivered E = (if ending E = Completed
      then [ending cs = Completed \<and> list_all (votes_delete refs) (delivered cs)] else [])"
    unfolding E_def by (rule every_shape)
  have tr: "delivered E = [True] \<longleftrightarrow> ending cs = Completed \<and> list_all (votes_delete refs) (delivered cs)"
    unfolding E_def by (rule every_delivered_True)
  show ?thesis
  proof (cases "ending E")
    case Completed
    with sh show ?thesis
      by (simp add: filterCallback_def t delivered_try_catch cs_def)
  next
    case (Raised e)
    with sh have "delivered E = []" by simp
    with tr have "\<not> (ending cs = Completed \<and> list_all (votes_delete refs) (delivered cs))"
      by simp
    with Raised \<open>delivered E = []\<close> show ?thesis
      by (simp add: filterCallback_def t delivered_try_catch cs_def)
  next
    case Diverged
    with nd show ?thesis by simp
  qed
qed

subsection \<open>The handler of the filter callback\<close>

lemma every_raised_nothing:
  "ending (every (everyCallback refs v) cs) = Raised ex \<Longrightarrow>
   delivered (every (everyCallback refs v) cs) = []"
  by (simp add: every_shape)

lemma tryBody_raised:
  assumes "ending (tryBody fuel w refs v) = Raised ex"
  shows "delivered (tryBody fuel w refs v) = []"
proof -
  have "tryBody fuel w refs v = every (everyCallback refs v)
          (fetchConfigs fuel (the_registry w) (repository v) (name v))"
    using assms by (simp add: tryBody_def Let_def split: if_splits)
  with assms show ?thesis by (simp add: every_raised_nothing)
qed

lemma filterCallback_raised:
  assumes "ending (tryBody fuel w refs v) = Raised ex"
  shows "delivered (filterCallback fuel w refs v) = [False]"
    and "ending (filterCallback fuel w refs v) = Completed"
    and "logged (effects (filterCallback fuel w refs v)) =
           (Debug, Processing (displayImage v)) # logged (effects (tryBody fuel w refs v))
           @ [(Error, ErrorWhileProcessing (displayImage v) ex)]"
  using assms tryBody_raised[OF assms]
  by (simp_all add: filterCallback_def delivered_try_catch ending_try_catch effects_try_catch
      logged_append)

lemma toDelete_skip:
  assumes "delivered (filterCallback fuel w refs v) = [False]"
    and "ending (filterCallback fuel w refs v) = Completed"
  shows "delivered (toDelete fuel w refs (s1 @ Item v # s2)) = delivered (toDelete fuel w refs (s1 @ s2))"
    and "ending (toDelete fuel w refs (s1 @ Item v # s2)) = ending (toDelete fuel w refs (s1 @ s2))"
  using assms
  by (simp_all add: toDelete_def filter_stream_def bind_append delivered_seq ending_seq
      delivered_bind_filter ending_bind_filter)

lemma forty_days_middle:
  "\<not> date_gt (Some (mid_june_2025 - 40 * msPerDay)) (minAge utc mid_june_2025)
   \<and> \<not> date_lt (Some (mid_june_2025 - 40 * msPerDay)) (maxAge utc mid_june_2025 mid_june_2025)"
  by code_simp

subsection \<open>More fuel changes nothing once the recursion comes back\<close>














subsection \<open>What kinds of effects a stream has\<close>

lemma effects_all_seq:
  "list_all P (effects a) \<Longrightarrow> list_all P (effects b) \<Longrightarrow> list_all P (effects (seq a b))"
  by (simp add: effects_seq)

lemma effects_all_bind:
  assumes "\<And>x. list_all P (effects (f x))"
  shows "list_all P (effects s) \<Longrightarrow> list_all P (effects (bind s f))"
  by (induction s rule: delivered.induct) (simp_all add: effects_all_seq assms)



lemma effects_map_Item: "effects (map Item xs) = []"
  by (induction xs) simp_all




lemma effects_all_fetchManifests:
  assumes "\<And>b r. P (Request (GetManifest b r))"
  shows "list_all P (effects (fetchManifests n reg b r))"
proof (induction n arbitrary: r)
  case 0
  then show ?case by simp
next
  case (Suc n)
  have "list_all P (effects (bind (bind (map Item ds) (fetchManifests n reg b)) (\<lambda>m. [Item (g m)])))"
    for ds g
    by (intro effects_all_bind) (simp_all add: Suc.IH effects_map_Item)
  then show ?case
    by (auto simp: assms map_stream_def flatMap_stream_def split: sum.splits option.splits)
qed

lemma effects_all_fetchConfigs:
  assumes "\<And>b r. P (Request (GetManifest b r))" "\<And>b r. P (Request (GetBlob b r))"
  shows "list_all P (effects (fetchConfigs n reg b r))"
  unfolding fetchConfigs_def map_stream_def
  by (intro effects_all_bind effects_all_fetchManifests)
     (auto simp: assms fetchConfig_def split: option.splits sum.splits)

lemma logged_requests_only: "list_all is_request fs \<Longrightarrow> logged fs = []"
  by (induction fs rule: logged.induct) simp_all


lemma logged_fetchConfigs: "logged (effects (fetchConfigs n reg b r)) = []"
  by (rule logged_requests_only) (rule effects_all_fetchConfigs, simp_all)























lemma every_until_raise:
  assumes "everyCallback refs v c = [Fail t]"
  shows "delivered cs = pre @ c # rest \<Longrightarrow> list_all (votes_delete refs) pre \<Longrightarrow>
     ending (every (everyCallback refs v) cs) = Raised t
     \<and> set (logged (effects (every (everyCallback refs v) cs)))
         \<subseteq> set (logged (effects cs)) \<union> {(Debug, VersionOf (displayImage v) x) |x. True}"
proof (induction cs arbitrary: pre rule: delivered.induct)
  case (2 x es)
  show ?case
  proof (cases pre)
    case Nil
    with 2 assms show ?thesis by simp
  next
    case (Cons p pre')
    with 2 have x: "x = p" and es: "delivered es = pre' @ c # rest"
      and vp: "votes_delete refs p" and vs: "list_all (votes_delete refs) pre'"
      by simp_all
    from everyCallback_cases[of refs v x] vp x obtain y where
      cb: "everyCallback refs v x = [Eff (Log Debug (VersionOf (displayImage v) y)), Item True]"
      by auto
    from 2(1)[OF es vs] show ?thesis
      by (auto simp: cb ending_seq effects_seq)
  qed
next
  case (3 e es)
  from 3(1)[OF _ 3(3)] 3(2) show ?case
    by (cases e) auto
qed simp_all


lemma example_refs_eq: "example_refs = [''main'', ''v1.0.0'', ''pr-42'']"
  by code_simp


section \<open>The claims\<close>

text \<open>
  C7, as the code has it. \<open>sanitizeTag\<close> is a function of its argument, and it is
  idempotent: sanitizing a sanitized string changes nothing. Two strings with the same
  runs -- the same allowed characters in the same order, and a run of disallowed
  characters in one wherever there is one in the other, the two runs being of any
  disallowed characters and of any lengths -- differ only in disallowed characters and
  sanitize to the same string.
\<close>

theorem sanitizeTag_idempotent:
  "sanitizeTag (sanitizeTag x) = sanitizeTag x
   \<and> (same_runs x y \<longrightarrow> differ_only_disallowed x y \<and> sanitizeTag x = sanitizeTag y)"
proof (intro conjI impI)
  show "sanitizeTag (sanitizeTag x) = sanitizeTag x"
    by (rule sanitizeTag_id) (rule sanitizeTag_allowed)
  show "differ_only_disallowed x y" if "same_runs x y"
    unfolding differ_only_disallowed_def using that by (rule same_runs_filter)
  show "sanitizeTag x = sanitizeTag y" if "same_runs x y"
    using that by (rule same_runs_sanitizeTag)
qed

theorem sanitizeTag_idempotent_witness:
  "sanitizeTag (sanitizeTag ''feature/x y'') = ''feature-x-y''
   \<and> same_runs ''feature/x y'' ''feature: x//y''
   \<and> sanitizeTag ''feature/x y'' = sanitizeTag ''feature: x//y''
   \<and> sanitizeTag ''feature: x//y'' = ''feature-x-y''"
  using sanitizeTag_idempotent [of "''feature/x y''" "''feature: x//y''"]
  by (simp add: allowed_def)

text \<open>
  C7 as stated fails for a disallowed character that one string has and the other has
  not. \<open>ab\<close> and \<open>a/b\<close> differ only in a disallowed character, the slash; the first is left
  as it is and the second gets a dash.
\<close>

theorem inserted_character_changes_result:
  "differ_only_disallowed ''ab'' ''a/b''
   \<and> sanitizeTag ''ab'' = ''ab''
   \<and> sanitizeTag ''a/b'' = ''a-b''
   \<and> sanitizeTag ''ab'' \<noteq> sanitizeTag ''a/b''"
  by (simp add: differ_only_disallowed_def allowed_def)

text \<open>
  C9. A package whose listing entry has no repository is dropped by the filter of
  \<open>repoPackages\<close>: the callback returns false without reading \<open>node_id\<close> (so nothing is
  thrown), and the stream of matching packages, the versions marked and the whole run are
  those of the same listing without that package. In particular no version listing is
  requested for it and none of its versions is evaluated or deleted.
\<close>

theorem unassociated_package_skipped:
  assumes "pkg_repository p = None"
  shows "repoPackagesCallback rid p = [Item False]
     \<and> repoPackages rid (s1 @ Item p # s2) = repoPackages rid (s1 @ s2)
     \<and> marked fuel w rid refs (ps1 @ p # ps2) = marked fuel w rid refs (ps1 @ ps2)
     \<and> main fuel dryRun w rid refs (ps1 @ p # ps2) = main fuel dryRun w rid refs (ps1 @ ps2)"
  using assms repoPackages_skip[OF assms, of rid "map Item ps1" "map Item ps2"]
  by (simp add: repoPackagesCallback_None repoPackages_skip marked_def main_def)

theorem unassociated_package_skipped_witness:
  "pkg_repository (example_pkg None) = None
   \<and> repoPackagesCallback ''R_1'' (example_pkg None) = [Item False]
   \<and> main 1 False (example_world mid_june_2025 broken_registry None (\<lambda>u. Inr ()))
        ''R_1'' example_refs ([] @ example_pkg None # [])
      = [Eff (Log Info (Deleted 0))]"
  using unassociated_package_skipped [of "example_pkg None" "''R_1''" "[]" "[]" 1
      "example_world mid_june_2025 broken_registry None (\<lambda>u. Inr ())" example_refs "[]" "[]"
      False]
  by (simp add: example_pkg_def main_def marked_def toDelete_def versions_def
      repoPackagesWithVersions_def repoPackages_def filter_stream_def map_stream_def
      flatMap_stream_def deleted_def)

text \<open>
  C2, as the code has it. The too-new cutoff is the same local time of day on the
  previous calendar day: one day before the first clock reading, moved by the change of
  the local offset between the two (nothing in a zone without such a change, an hour
  around a change to or from daylight saving time). A version updated later than that
  cutoff is kept: the callback logs that the image is too new and returns false, whatever
  the reference names, the labels and the registry, and it sends no request -- neither
  manifest nor configuration is fetched.
\<close>

theorem fresh_version_kept:
  assumes "clock_ok (clock1 w)" "updated_at v = Some u"
    and "\<bar>offset_shift (zone w) (clock1 w)\<bar> \<le> msPerDay"
    and "clock1 w - msPerDay + offset_shift (zone w) (clock1 w) < u"
  shows "minAge (zone w) (clock1 w)
       = Some (clock1 w - msPerDay + offset_shift (zone w) (clock1 w))
     \<and> filterCallback fuel w refs v =
       [Eff (Log Debug (Processing (displayImage v))),
        Eff (Log Info (TooNew (displayImage v))), Item False]
     \<and> delivered (filterCallback fuel w refs v) = [False]
     \<and> requests (effects (filterCallback fuel w refs v)) = []
     \<and> delivered (toDelete fuel w refs [Item v]) = []"
proof -
  have m: "minAge (zone w) (clock1 w)
       = Some (clock1 w - msPerDay + offset_shift (zone w) (clock1 w))"
    using assms(1,3) unfolding minAge_value[OF assms(1)]
    by (auto simp: TimeClip_def clock_ok_def msPerDay_def abs_if split: if_splits)
  then have "date_gt (updated_at v) (minAge (zone w) (clock1 w))"
    using assms(2,4) by (simp add: date_gt_def)
  then have "filterCallback fuel w refs v =
       [Eff (Log Debug (Processing (displayImage v))),
        Eff (Log Info (TooNew (displayImage v))), Item False]"
    by (simp add: filterCallback_def tryBody_def)
  with m show ?thesis by (simp add: toDelete_def filter_stream_def)
qed

theorem fresh_version_kept_witness:
  "clock_ok (clock1 (new_york_world autumn_2025 broken_registry None (\<lambda>u. Inr ())))
   \<and> updated_at (example_version (Some (autumn_2025 - 88200000))) = Some (autumn_2025 - 88200000)
   \<and> offset_shift new_york autumn_2025 = - 3600000
   \<and> autumn_2025 - msPerDay - 3600000 < autumn_2025 - 88200000
   \<and> minAge new_york autumn_2025 = Some (autumn_2025 - 90000000)
   \<and> delivered (filterCallback 0 (new_york_world autumn_2025 broken_registry None (\<lambda>u. Inr ()))
        example_refs (example_version (Some (autumn_2025 - 88200000)))) = [False]
   \<and> requests (effects (filterCallback 0
        (new_york_world autumn_2025 broken_registry None (\<lambda>u. Inr ()))
        example_refs (example_version (Some (autumn_2025 - 88200000))))) = []"
  using fresh_version_kept [of "new_york_world autumn_2025 broken_registry None (\<lambda>u. Inr ())"
      "example_version (Some (autumn_2025 - 88200000))" "autumn_2025 - 88200000" 0 example_refs]
  by (simp add: new_york_world_def example_version_def clock_ok_def autumn_2025_def
      msPerDay_def offset_shift_def LocalTime_def new_york_def)

text \<open>
  C2 as stated fails the day after the clocks go forward. In New York at
  2025-03-09T16:00:00Z the cutoff is 23 hours back, at 2025-03-08T17:00:00Z. A version
  updated 23 and a half hours before the clock reading, within the last day, is not too
  new: its manifest and configuration are fetched and, labelled v0.9.0, it is marked for
  deletion.
\<close>

theorem spring_forward_fresh_version_deleted:
  "spring_2025 - msPerDay < spring_2025 - 84600000
   \<and> spring_2025 - 84600000 < spring_2025
   \<and> minAge new_york spring_2025 = Some 1741453200000
   \<and> spring_2025 - 1741453200000 = 23 * 3600000
   \<and> filterCallback 1 (new_york_world spring_2025 (single_registry (labelled ''v0.9.0'')) None
         (\<lambda>u. Inr ())) example_refs (example_version (Some (spring_2025 - 84600000)))
       = [Eff (Log Debug (Processing ''ddterm/img:old'')),
          Eff (Request (GetManifest ''/v2/ddterm/img/'' ''sha256:a0'')),
          Eff (Request (GetBlob ''/v2/ddterm/img/'' ''sha256:c0'')),
          Eff (Log Debug (VersionOf ''ddterm/img:old'' ''v0.9.0'')),
          Item True]"
  by code_simp


text \<open>
  C5. When the body of the \<open>try\<close> raises an exception while one version is evaluated --
  whatever raised it: a manifest or configuration request, an unknown media type, a field
  missing from a document -- the handler logs it and the callback returns a falsy value:
  the version is kept, and the callback itself completes. The versions marked among the
  others, and whether the stream of marked versions completes, are as if that version were
  not in the stream.
\<close>

theorem exception_keeps_version:
  assumes "ending (tryBody fuel w refs v) = Raised ex"
  shows "delivered (filterCallback fuel w refs v) = [False]
     \<and> ending (filterCallback fuel w refs v) = Completed
     \<and> (Error, ErrorWhileProcessing (displayImage v) ex)
          \<in> set (logged (effects (filterCallback fuel w refs v)))
     \<and> delivered (toDelete fuel w refs (s1 @ Item v # s2))
          = delivered (toDelete fuel w refs (s1 @ s2))
     \<and> ending (toDelete fuel w refs (s1 @ Item v # s2))
          = ending (toDelete fuel w refs (s1 @ s2))"
  using filterCallback_raised[OF assms]
    toDelete_skip[OF filterCallback_raised(1,2)[OF assms]]
  by simp

theorem exception_keeps_version_witness:
  "ending (tryBody 1 (example_world mid_june_2025 broken_registry None (\<lambda>u. Inr ()))
      example_refs (example_version (Some (mid_june_2025 - 40 * msPerDay))))
     = Raised (HttpError ''503'')
   \<and> delivered (filterCallback 1 (example_world mid_june_2025 broken_registry None (\<lambda>u. Inr ()))
      example_refs (example_version (Some (mid_june_2025 - 40 * msPerDay)))) = [False]
   \<and> delivered (toDelete 1 (example_world mid_june_2025 broken_registry None (\<lambda>u. Inr ()))
      example_refs ([] @ Item (example_version (Some (mid_june_2025 - 40 * msPerDay)))
         # [Item (example_version (Some (mid_june_2025 - 400 * msPerDay)))]))
     = delivered (toDelete 1 (example_world mid_june_2025 broken_registry None (\<lambda>u. Inr ()))
      example_refs ([] @ [Item (example_version (Some (mid_june_2025 - 400 * msPerDay)))]))"
  using exception_keeps_version [of 1 "example_world mid_june_2025 broken_registry None (\<lambda>u. Inr ())"
      example_refs "example_version (Some (mid_june_2025 - 40 * msPerDay))" "HttpError ''503''"
      "[]" "[Item (example_version (Some (mid_june_2025 - 400 * msPerDay)))]"]
    forty_days_middle
  by (simp add: tryBody_def example_world_def example_version_def fetchConfigs_def
      map_stream_def broken_registry_def)


text \<open>
  C3, evaluated where it fails. A version older than the cutoff \<open>maxAge\<close> is marked without
  any request (lemma \<open>too_old_version_deleted\<close>), and the cutoff is one year before the clock
  reading as long as the day before lies in the same year (lemma \<open>maxAge_same_year\<close>). On
  the first of January it does not. When the clock reads 2026-01-01T12:00:00Z, the day
  before lies in 2025, so the cutoff is set to 2024-01-01T12:00:00Z, two years back, while
  one year before the reading is 2025-01-01T12:00:00Z. A version last updated on
  2024-07-01T00:00:00Z is older than one year and not older than the cutoff: its manifest
  and configuration are fetched, and with the label \<open>main\<close>, a reference name, it is kept.
\<close>

theorem new_year_cutoff_two_years:
  "clock_ok new_year_2026
   \<and> maxAge utc new_year_2026 new_year_2026 = Some 1704110400000
   \<and> oneYearBefore utc new_year_2026 = Some 1735732800000
   \<and> date_lt (Some 1719792000000) (oneYearBefore utc new_year_2026)
   \<and> filterCallback 1 (example_world new_year_2026 (single_registry (labelled ''main'')) None
         (\<lambda>u. Inr ())) example_refs (example_version (Some 1719792000000))
       = [Eff (Log Debug (Processing ''ddterm/img:old'')),
          Eff (Request (GetManifest ''/v2/ddterm/img/'' ''sha256:a0'')),
          Eff (Request (GetBlob ''/v2/ddterm/img/'' ''sha256:c0'')),
          Eff (Log Debug (VersionOf ''ddterm/img:old'' ''main'')),
          Item False]"
  by code_simp


text \<open>
  C8, as the code has it. With the reference names main, v1.0.0 and pr-42, a version
  updated two days before the clock reading, whose one manifest has a configuration
  labelled v0.9.0, is marked for deletion: two days is past the one day of the too-new
  rule, so the label is looked at, and v0.9.0 is not a reference name. Two days is past
  the cutoff in every zone whose clocks were not put back by more than a day in the day
  before the reading.
\<close>

theorem two_day_old_unprotected_deleted:
  assumes "clock_ok (clock1 w)"
    and "- msPerDay \<le> offset_shift (zone w) (clock1 w)"
    and "updated_at v = Some (clock1 w - 2 * msPerDay)"
    and "manifest_at (the_registry w) (repository v) (name v) = Inr m"
    and "array_includes manifestTypes (mediaType m)"
    and "config_digest m = Some d"
    and "blob_at (the_registry w) (repository v) d = Inr cfg"
    and "label_of (cfg, \<lparr>reference = name v, doc = m, parent = None\<rparr>) = Some ''v0.9.0''"
    and "set refs = {''main'', ''v1.0.0'', ''pr-42''}"
    and "0 < fuel"
  shows "delivered (filterCallback fuel w refs v) = [True]"
proof -
  obtain n where fuel: "fuel = Suc n" using assms(10) by (cases fuel) simp_all
  have "\<not> date_gt (Some (clock1 w - 2 * msPerDay)) (minAge (zone w) (clock1 w))"
    by (rule not_too_new) (use assms(1,2) in \<open>simp_all add: msPerDay_def\<close>)
  then have new: "\<not> date_gt (updated_at v) (minAge (zone w) (clock1 w))"
    by (simp add: assms(3))
  have cs: "fetchConfigs fuel (the_registry w) (repository v) (name v) =
      [Eff (Request (GetManifest (repository v) (name v))),
       Eff (Request (GetBlob (repository v) d)),
       Item (cfg, \<lparr>reference = name v, doc = m, parent = None\<rparr>)]"
    using assms(4-7) by (simp add: fuel fetchConfigs_def map_stream_def fetchConfig_def)
  have "''v0.9.0'' \<notin> set refs" unfolding assms(9) by simp
  then have vote: "votes_delete refs (cfg, \<lparr>reference = name v, doc = m, parent = None\<rparr>)"
    using assms(8) by (simp add: votes_delete_def)
  show ?thesis
  proof (cases "date_lt (updated_at v) (maxAge (zone w) (clock1 w) (clock2 w))")
    case True
    with new show ?thesis by (simp add: filterCallback_def tryBody_def)
  next
    case False
    from filterCallback_middle[OF new False, of fuel refs] cs vote
    show ?thesis by simp
  qed
qed

theorem two_day_old_unprotected_deleted_witness:
  "clock_ok (clock1 (example_world mid_june_2025 (single_registry (labelled ''v0.9.0'')) None (\<lambda>u. Inr ())))
   \<and> - msPerDay \<le> offset_shift utc mid_june_2025
   \<and> updated_at (example_version (Some (mid_june_2025 - 2 * msPerDay))) = Some (mid_june_2025 - 2 * msPerDay)
   \<and> array_includes manifestTypes (mediaType leaf_doc)
   \<and> label_of (labelled ''v0.9.0'', \<lparr>reference = ''sha256:a0'', doc = leaf_doc, parent = None\<rparr>) = Some ''v0.9.0''
   \<and> set example_refs = {''main'', ''v1.0.0'', ''pr-42''}
   \<and> delivered (filterCallback 1 (example_world mid_june_2025 (single_registry (labelled ''v0.9.0'')) None (\<lambda>u. Inr ()))
        example_refs (example_version (Some (mid_june_2025 - 2 * msPerDay)))) = [True]"
  using two_day_old_unprotected_deleted [of "example_world mid_june_2025 (single_registry (labelled ''v0.9.0'')) None (\<lambda>u. Inr ())"
      "example_version (Some (mid_june_2025 - 2 * msPerDay))" leaf_doc "''sha256:c0''"
      "labelled ''v0.9.0''" example_refs 1]
  by (simp add: example_world_def example_version_def single_registry_def leaf_doc_def
      labelled_def label_of_def clock_ok_def mid_june_2025_def example_refs_eq
      array_includes_def manifestTypes_def offset_shift_def utc_def msPerDay_def)


text \<open>
  C8 as stated fails: the version of the scenario, two days old and labelled v0.9.0, is
  not kept. Its manifest and configuration are fetched and the callback returns true.
\<close>

theorem two_day_old_not_kept:
  "updated_at (example_version (Some (mid_june_2025 - 2 * msPerDay)))
     = Some (clock1 (example_world mid_june_2025 (single_registry (labelled ''v0.9.0'')) None
         (\<lambda>u. Inr ())) - 2 * msPerDay)
   \<and> example_refs = [''main'', ''v1.0.0'', ''pr-42'']
   \<and> filterCallback 1 (example_world mid_june_2025 (single_registry (labelled ''v0.9.0'')) None
         (\<lambda>u. Inr ())) example_refs (example_version (Some (mid_june_2025 - 2 * msPerDay)))
       = [Eff (Log Debug (Processing ''ddterm/img:old'')),
          Eff (Request (GetManifest ''/v2/ddterm/img/'' ''sha256:a0'')),
          Eff (Request (GetBlob ''/v2/ddterm/img/'' ''sha256:c0'')),
          Eff (Log Debug (VersionOf ''ddterm/img:old'' ''v0.9.0'')),
          Item True]"
  by code_simp







text \<open>
  C4, as the code has it. A configuration whose version label is present with value \<open>x\<close>
  votes to keep the version exactly when \<open>x\<close> is empty or \<open>x\<close> itself is one of the
  reference names: the label is compared as it is, character for character (so with
  regard to case), and is not sanitized first. Only the reference names are sanitized.
\<close>

theorem vote_compares_raw_label:
  assumes "label_of c = Some x"
  shows "delivered (everyCallback refs v c) = [x \<noteq> [] \<and> x \<notin> set refs]
     \<and> ending (everyCallback refs v c) = Completed
     \<and> (delivered (everyCallback refs v c) = [False] \<longleftrightarrow> x = [] \<or> x \<in> set refs)"
  using assms
  by (auto simp: everyCallback_def label_of_def split: option.splits)

theorem vote_compares_raw_label_witness:
  "label_of (labelled ''main'', \<lparr>reference = ''sha256:a0'', doc = leaf_doc, parent = None\<rparr>)
     = Some ''main''
   \<and> ''main'' \<in> set example_refs
   \<and> delivered (everyCallback example_refs (example_version None)
        (labelled ''main'', \<lparr>reference = ''sha256:a0'', doc = leaf_doc, parent = None\<rparr>))
       = [False]"
  using vote_compares_raw_label [of "(labelled ''main'', \<lparr>reference = ''sha256:a0'', doc = leaf_doc, parent = None\<rparr>)"
      "''main''" example_refs "example_version None"]
  by (simp add: label_of_def labelled_def example_refs_eq)


text \<open>
  C4 as stated fails on a label that sanitizing would change. With the one branch
  \<open>feature/foo\<close> the reference names are \<open>feature-foo\<close>; the sanitized value of the label
  \<open>feature/foo\<close> is among them, and yet the configuration votes to delete, since the label
  itself is not.
\<close>

theorem unsanitized_label_votes_delete:
  "collectRefs [''feature/foo''] [] [] = [''feature-foo'']
   \<and> sanitizeTag ''feature/foo'' \<in> set (collectRefs [''feature/foo''] [] [])
   \<and> label_of (labelled ''feature/foo'',
        \<lparr>reference = ''sha256:a0'', doc = leaf_doc, parent = None\<rparr>) = Some ''feature/foo''
   \<and> delivered (everyCallback (collectRefs [''feature/foo''] [] []) (example_version None)
        (labelled ''feature/foo'', \<lparr>reference = ''sha256:a0'', doc = leaf_doc, parent = None\<rparr>))
       = [True]"
  by code_simp







text \<open>
  C10, as the code has it. Take a version that reaches the label rule, and a configuration
  resolved for it that has no \<open>Labels\<close> at all, every configuration before it voting to
  delete. Reading the label throws; the version is kept by the handler of the callback,
  which logs the exception, and the line of the missing-label rule is not logged. That
  line is logged by the callback for a configuration exactly when \<open>Labels\<close> is there and
  the version label in it is absent or is the empty string.
\<close>

theorem missing_labels_exception_path:
  assumes "\<not> date_gt (updated_at v) (minAge (zone w) (clock1 w))"
    and "\<not> date_lt (updated_at v) (maxAge (zone w) (clock1 w) (clock2 w))"
    and "delivered (fetchConfigs fuel (the_registry w) (repository v) (name v)) = pre @ c # rest"
    and "list_all (votes_delete refs) pre"
    and "config (fst c) = Some cc" and "Labels cc = None"
  shows "everyCallback refs v c = [Fail (TypeError versionLabel)]
     \<and> delivered (filterCallback fuel w refs v) = [False]
     \<and> (Error, ErrorWhileProcessing (displayImage v) (TypeError versionLabel))
          \<in> set (logged (effects (filterCallback fuel w refs v)))
     \<and> (Error, NoVersionLabel (displayImage v))
          \<notin> set (logged (effects (filterCallback fuel w refs v)))
     \<and> ((Error, NoVersionLabel (displayImage v)) \<in> set (logged (effects (everyCallback refs v c')))
          \<longleftrightarrow> (\<exists>cc' labels. config (fst c') = Some cc' \<and> Labels cc' = Some labels
                 \<and> (labels versionLabel = None \<or> labels versionLabel = Some [])))"
proof -
  let ?cs = "fetchConfigs fuel (the_registry w) (repository v) (name v)"
  have cb: "everyCallback refs v c = [Fail (TypeError versionLabel)]"
    using assms(5,6) by (simp add: everyCallback_def)
  have t: "tryBody fuel w refs v = every (everyCallback refs v) ?cs"
    using assms(1,2) by (simp add: tryBody_def)
  from every_until_raise[OF cb assms(3,4)]
  have r: "ending (tryBody fuel w refs v) = Raised (TypeError versionLabel)"
    and l: "set (logged (effects (tryBody fuel w refs v)))
       \<subseteq> {(Debug, VersionOf (displayImage v) x) |x. True}"
    by (simp_all add: t logged_fetchConfigs)
  have "(Error, NoVersionLabel (displayImage v))
          \<notin> set (logged (effects (filterCallback fuel w refs v)))"
    using l unfolding filterCallback_raised(3)[OF r] by auto
  moreover have "(Error, NoVersionLabel (displayImage v)) \<in> set (logged (effects (everyCallback refs v c')))
          \<longleftrightarrow> (\<exists>cc' labels. config (fst c') = Some cc' \<and> Labels cc' = Some labels
                 \<and> (labels versionLabel = None \<or> labels versionLabel = Some []))"
    by (auto simp: everyCallback_def split: option.splits)
  ultimately show ?thesis
    using cb filterCallback_raised(1)[OF r] filterCallback_raised(3)[OF r] by simp
qed

theorem missing_labels_exception_path_witness:
  "\<not> date_gt (updated_at (example_version (Some (mid_june_2025 - 40 * msPerDay))))
        (minAge utc mid_june_2025)
   \<and> \<not> date_lt (updated_at (example_version (Some (mid_june_2025 - 40 * msPerDay))))
        (maxAge utc mid_june_2025 mid_june_2025)
   \<and> delivered (fetchConfigs 1 (single_registry unlabelled) ''/v2/ddterm/img/'' ''sha256:a0'')
       = [] @ (unlabelled, \<lparr>reference = ''sha256:a0'', doc = leaf_doc, parent = None\<rparr>) # []
   \<and> Labels \<lparr>Labels = None\<rparr> = None
   \<and> delivered (filterCallback 1
        (example_world mid_june_2025 (single_registry unlabelled) None (\<lambda>u. Inr ()))
        example_refs (example_version (Some (mid_june_2025 - 40 * msPerDay)))) = [False]
   \<and> (Error, ErrorWhileProcessing ''ddterm/img:old'' (TypeError versionLabel))
        \<in> set (logged (effects (filterCallback 1
             (example_world mid_june_2025 (single_registry unlabelled) None (\<lambda>u. Inr ()))
             example_refs (example_version (Some (mid_june_2025 - 40 * msPerDay))))))
   \<and> (Error, NoVersionLabel ''ddterm/img:old'')
        \<notin> set (logged (effects (filterCallback 1
             (example_world mid_june_2025 (single_registry unlabelled) None (\<lambda>u. Inr ()))
             example_refs (example_version (Some (mid_june_2025 - 40 * msPerDay))))))"
proof -
  have cs: "fetchConfigs 1 (single_registry unlabelled) ''/v2/ddterm/img/'' ''sha256:a0''
      = [Eff (Request (GetManifest ''/v2/ddterm/img/'' ''sha256:a0'')),
         Eff (Request (GetBlob ''/v2/ddterm/img/'' ''sha256:c0'')),
         Item (unlabelled, \<lparr>reference = ''sha256:a0'', doc = leaf_doc, parent = None\<rparr>)]"
    by (simp add: fetchConfigs_def single_registry_def leaf_doc_def map_stream_def
        fetchConfig_def array_includes_def manifestTypes_def)
  show ?thesis
    using missing_labels_exception_path [of "example_version (Some (mid_june_2025 - 40 * msPerDay))"
        "example_world mid_june_2025 (single_registry unlabelled) None (\<lambda>u. Inr ())" 1
        "[]" "(unlabelled, \<lparr>reference = ''sha256:a0'', doc = leaf_doc, parent = None\<rparr>)" "[]"
        example_refs "\<lparr>Labels = None\<rparr>"]
      forty_days_middle cs
    by (simp add: example_world_def example_version_def unlabelled_def)
qed


text \<open>
  C10 as stated fails on an empty label: the configuration has \<open>Labels\<close> and the version
  label is a key of it, with the empty string as its value, and the callback logs the
  line of the missing-label rule and returns false.
\<close>

theorem empty_label_logged_missing:
  "label_of (labelled [], \<lparr>reference = ''sha256:a0'', doc = leaf_doc, parent = None\<rparr>)
     = Some []
   \<and> everyCallback example_refs (example_version None)
        (labelled [], \<lparr>reference = ''sha256:a0'', doc = leaf_doc, parent = None\<rparr>)
       = [Eff (Log Error (NoVersionLabel ''ddterm/img:old'')), Item False]"
  by code_simp

end
